theory Spec2Isabelle
  imports Complex_Main
begin

section \<open>Sensitivity sampler of \<open>generate_plot.py\<close>\<close>

text \<open>
  The script evaluates the overlap volume \<open>V = t\<^sup>2 h / sin \<theta>\<close> over a grid of angles and
  hands the two sequences to the plotting library.  The embedding below covers the
  computational part: \<open>calculate_overlap\<close>, the grid \<open>angles\<close> and the list comprehension
  \<open>volumes\<close>.

  A double is modelled by the real it denotes, and the special values (both infinities and
  NaN) are kept as constructors.  The function is embedded twice.  \<open>calculate_overlap\<close>
  is its exact reading: every operation returns the real result.  \<open>calculate_overlap_f64\<close>
  is the same body with the range of doubles: a result too large for a double is an
  infinity, or an \<open>OverflowError\<close> where Python raises one, and a result too small is
  zero.  Rounding inside the range is outside both readings.  The two agree wherever all
  intermediate results are in range, which includes every call the script makes.
\<close>

subsection \<open>Values\<close>

text \<open>
  A double-precision value as the script sees it: a finite number, \<open>float('inf')\<close>, its
  negation, or NaN.
\<close>

datatype float64 = Finite real | PInf | NInf | NaN

text \<open>
  The exceptions that arithmetic on Python floats can raise: the quotient of two Python
  floats with a zero divisor, and a power whose result leaves the range of doubles.  A
  call of the model returns \<open>Inl e\<close> where the Python call raises \<open>e\<close>, and \<open>Inr v\<close> where it
  returns \<open>v\<close>.  The only division of the script has a numpy scalar as divisor, which
  does not raise (see \<open>np_true_divide\<close> below); the power \<open>thickness**2\<close> raises in the
  reading with the range of doubles (see \<open>py_float_pow\<close>).
\<close>

datatype py_exception = ZeroDivisionError | OverflowError

subsection \<open>The numpy primitives the script calls\<close>

text \<open>
  \<open>np.radians(x)\<close> multiplies by \<open>\<pi>/180\<close>; \<open>np.sin\<close> is the sine.
\<close>

definition np_radians :: "real \<Rightarrow> real" where
  "np_radians x = x * pi / 180"

definition np_sin :: "real \<Rightarrow> real" where
  "np_sin x = sin x"

text \<open>
  The quotient \<open>x / y\<close> where \<open>y\<close> is a numpy scalar (here the result of \<open>np.sin\<close>).
  numpy does not raise on a zero divisor as Python's own float division does: it warns
  and returns an infinity with the sign of the numerator, or NaN for \<open>0 / 0\<close>.  HOL's
  \<open>x / 0 = 0\<close> is therefore never used.
\<close>

definition np_true_divide :: "real \<Rightarrow> real \<Rightarrow> float64" where
  "np_true_divide x y =
     (if y = 0 then (if 0 < x then PInf else if x < 0 then NInf else NaN)
      else Finite (x / y))"

text \<open>
  \<open>np.linspace(start, stop, num)\<close> with the default \<open>endpoint=True\<close>: the points
  \<open>i * step + start\<close> with \<open>step = (stop - start) / (num - 1)\<close>, the last one overwritten
  by \<open>stop\<close> itself when \<open>num > 1\<close>.
\<close>

definition np_linspace :: "real \<Rightarrow> real \<Rightarrow> nat \<Rightarrow> real list" where
  "np_linspace start stop num =
     (if num = 0 then []
      else if num = 1 then [start]
      else (let step = (stop - start) / real (num - 1)
            in map (\<lambda>i. real i * step + start) [0..<num - 1] @ [stop]))"

subsection \<open>\<open>calculate_overlap\<close>\<close>

text \<open>
  \<^verbatim>\<open>
  def calculate_overlap(theta_deg, thickness=0.225, height=3.0):
      # Avoid division by zero
      if theta_deg < 0.1: return float('inf')
      theta_rad = np.radians(theta_deg)
      # V = t^2 * h / sin(theta)
      return (thickness**2 * height) / np.sin(theta_rad)
  \<close>
  The exact reading: the power, the product and the quotient are those of the reals.
\<close>

definition default_thickness :: real where
  "default_thickness = 225 / 1000"

definition default_height :: real where
  "default_height = 3"

definition calculate_overlap :: "real \<Rightarrow> real \<Rightarrow> real \<Rightarrow> py_exception + float64" where
  "calculate_overlap theta_deg thickness height =
     (if theta_deg < 1 / 10 then Inr PInf
      else (let theta_rad = np_radians theta_deg
            in Inr (np_true_divide (thickness\<^sup>2 * height) (np_sin theta_rad))))"

subsection \<open>The sweep\<close>

text \<open>
  \<^verbatim>\<open>
  angles = np.linspace(1, 90, 500)
  volumes = [calculate_overlap(a) for a in angles]
  \<close>
  The comprehension calls \<open>calculate_overlap\<close> with the default thickness and height on
  each element in order; an exception raised by a call would end it.
\<close>

definition angles :: "real list" where
  "angles = np_linspace 1 90 500"

fun volumes_of :: "real list \<Rightarrow> py_exception + float64 list" where
  "volumes_of [] = Inr []"
| "volumes_of (a # as) =
     (case calculate_overlap a default_thickness default_height of
        Inl e \<Rightarrow> Inl e
      | Inr v \<Rightarrow> (case volumes_of as of Inl e \<Rightarrow> Inl e | Inr vs \<Rightarrow> Inr (v # vs)))"

definition volumes :: "py_exception + float64 list" where
  "volumes = volumes_of angles"

text \<open>
  A sample is one point of the plotted curve: \<open>plt.plot(angles, volumes)\<close> pairs the
  \<open>i\<close>-th angle with the \<open>i\<close>-th volume.
\<close>

record sample =
  angle :: real
  volume :: float64

definition sweep :: "real list \<Rightarrow> py_exception + sample list" where
  "sweep domain =
     (case volumes_of domain of
        Inl e \<Rightarrow> Inl e
      | Inr vs \<Rightarrow> Inr (map (\<lambda>(a, v). \<lparr>angle = a, volume = v\<rparr>) (zip domain vs)))"


subsection \<open>The range of doubles\<close>

text \<open>
  Rounding to nearest sends a real of magnitude at least \<open>2 ^ 1024 - 2 ^ 970\<close> (half a
  unit in the last place above the largest double) to an infinity, and one of magnitude
  at most \<open>1 / 2 ^ 1075\<close> (half the least positive double) to zero.
\<close>

definition float_overflow :: real where
  "float_overflow = 2 ^ 1024 - 2 ^ 970"

definition float_tiny :: real where
  "float_tiny = 1 / 2 ^ 1075"

text \<open>The double that a real result is delivered as, rounding inside the range aside.\<close>

definition to_float64 :: "real \<Rightarrow> float64" where
  "to_float64 x =
     (if float_overflow \<le> x then PInf
      else if x \<le> - float_overflow then NInf
      else if \<bar>x\<bar> \<le> float_tiny then Finite 0
      else Finite x)"

text \<open>
  \<open>x ** n\<close> on a Python float \<open>x\<close> and a non-negative integer \<open>n\<close>: Python raises
  \<open>OverflowError\<close> where the result overflows, and returns zero where it underflows.
\<close>

definition py_float_pow :: "real \<Rightarrow> nat \<Rightarrow> py_exception + real" where
  "py_float_pow x n =
     (if float_overflow \<le> \<bar>x ^ n\<bar> then Inl OverflowError
      else if \<bar>x ^ n\<bar> \<le> float_tiny then Inr 0
      else Inr (x ^ n))"

text \<open>\<open>x * y\<close> on Python floats never raises: an overflowing product is an infinity.\<close>

definition py_float_mul :: "real \<Rightarrow> real \<Rightarrow> float64" where
  "py_float_mul x y = to_float64 (x * y)"

text \<open>
  The quotient by a numpy scalar \<open>y\<close>, which is finite here (a sine), of a numerator that
  may be an infinity.  A zero divisor is taken as positive zero.
\<close>

fun np_true_divide_f64 :: "float64 \<Rightarrow> real \<Rightarrow> float64" where
  "np_true_divide_f64 (Finite x) y =
     (if y = 0 then (if 0 < x then PInf else if x < 0 then NInf else NaN)
      else to_float64 (x / y))"
| "np_true_divide_f64 PInf y = (if y < 0 then NInf else PInf)"
| "np_true_divide_f64 NInf y = (if y < 0 then PInf else NInf)"
| "np_true_divide_f64 NaN y = NaN"

text \<open>
  \<open>calculate_overlap\<close> with the range of doubles.  The guard returns before any
  arithmetic; past it, \<open>thickness**2\<close> is evaluated first and may raise, then the product
  and the quotient, which do not.
\<close>

definition calculate_overlap_f64 :: "real \<Rightarrow> real \<Rightarrow> real \<Rightarrow> py_exception + float64" where
  "calculate_overlap_f64 theta_deg thickness height =
     (if theta_deg < 1 / 10 then Inr PInf
      else (let theta_rad = np_radians theta_deg
            in case py_float_pow thickness 2 of
                 Inl e \<Rightarrow> Inl e
               | Inr sq \<Rightarrow>
                   Inr (np_true_divide_f64 (py_float_mul sq height) (np_sin theta_rad))))"

text \<open>A real that is delivered as itself: neither flushed to zero nor an infinity.\<close>

definition in_float_range :: "real \<Rightarrow> bool" where
  "in_float_range x = (float_tiny < \<bar>x\<bar> \<and> \<bar>x\<bar> < float_overflow)"

section \<open>Properties\<close>

subsection \<open>Helper facts\<close>

lemma np_sin_radians_90: "np_sin (np_radians 90) = 1"
  by (simp add: np_sin_def np_radians_def)

lemma np_sin_radians_pos:
  assumes "0 < a" "a < 180"
  shows "0 < np_sin (np_radians a)"
proof -
  have "0 < a * pi / 180" using assms by simp
  moreover have "a * pi / 180 < pi" using assms by simp
  ultimately show ?thesis
    unfolding np_sin_def np_radians_def by (rule sin_gt_zero)
qed

lemma np_sin_radians_270: "np_sin (np_radians 270) = - 1"
proof -
  have "(270::real) * pi / 180 = 3 / 2 * pi" by simp
  then show ?thesis
    unfolding np_sin_def np_radians_def by (simp only: sin_3over2_pi)
qed

lemma calculate_overlap_Inr:
  "calculate_overlap a t h =
     Inr (if a < 1 / 10 then PInf else np_true_divide (t\<^sup>2 * h) (np_sin (np_radians a)))"
  by (simp add: calculate_overlap_def Let_def)

lemma calculate_overlap_finite:
  assumes "1 / 10 \<le> a" "a < 180"
  shows "calculate_overlap a t h = Inr (Finite (t\<^sup>2 * h / sin (a * pi / 180)))"
proof -
  have "0 < np_sin (np_radians a)"
    using assms by (intro np_sin_radians_pos) simp_all
  then show ?thesis
    using assms by (simp add: calculate_overlap_def np_true_divide_def np_sin_def np_radians_def)
qed

lemma overlap_value_pos:
  assumes "1 / 10 \<le> a" "a < 180" "0 < t" "0 < h"
  shows "0 < t\<^sup>2 * h / sin (a * pi / 180)"
proof -
  have "0 < np_sin (np_radians a)"
    using assms by (intro np_sin_radians_pos) simp_all
  then have "0 < sin (a * pi / 180)" by (simp add: np_sin_def np_radians_def)
  moreover have "0 < t\<^sup>2 * h" using assms by simp
  ultimately show ?thesis by simp
qed


lemma default_overlap_finite:
  assumes "1 \<le> a" "a \<le> 90"
  shows "calculate_overlap a default_thickness default_height
           = Inr (Finite (default_thickness\<^sup>2 * default_height / sin (a * pi / 180)))"
    and "0 < default_thickness\<^sup>2 * default_height / sin (a * pi / 180)"
  using assms
  by (simp_all add: calculate_overlap_finite overlap_value_pos default_thickness_def
      default_height_def del: divide_pos_pos zero_less_divide_iff)

lemma default_overlap_90:
  "calculate_overlap 90 default_thickness default_height = Inr (Finite (151875 / 1000000))"
  by (simp add: calculate_overlap_def np_true_divide_def np_sin_radians_90 Let_def
      power2_eq_square default_thickness_def default_height_def)

text \<open>The comprehension never stops early: it is a map over the domain.\<close>

lemma volumes_of_eq:
  "volumes_of d = Inr (map (\<lambda>a. projr (calculate_overlap a default_thickness default_height)) d)"
  by (induction d) (simp_all add: calculate_overlap_Inr)

lemma sweep_eq:
  "sweep d =
     Inr (map (\<lambda>a. \<lparr>angle = a,
                     volume = projr (calculate_overlap a default_thickness default_height)\<rparr>) d)"
  by (simp add: sweep_def volumes_of_eq zip_map2 zip_same_conv_map)

text \<open>The grid: 499 points \<open>1 + i * 89/499\<close>, then 90.\<close>

lemma angles_eq: "angles = map (\<lambda>i. real i * (89 / 499) + 1) [0..<499] @ [90]"
  by (simp add: angles_def np_linspace_def Let_def)

lemma length_angles: "length angles = 500"
  by (simp add: angles_eq)

lemma angles_nth: "i < 499 \<Longrightarrow> angles ! i = real i * (89 / 499) + 1"
  by (simp add: angles_eq nth_append)

lemma angles_nth_last: "angles ! 499 = 90"
  by (simp add: angles_eq nth_append)

lemma angles_bounds:
  assumes "a \<in> set angles"
  shows "1 \<le> a \<and> a \<le> 90"
proof -
  from assms consider i where "i < 499" "a = real i * (89 / 499) + 1" | "a = 90"
    by (auto simp: angles_eq)
  then show ?thesis
  proof cases
    case 1
    then have "real i \<le> 499" by simp
    then have "real i * (89 / 499) \<le> 499 * (89 / 499)"
      by (intro mult_right_mono) simp_all
    then show ?thesis using 1 by simp
  next
    case 2
    then show ?thesis by simp
  qed
qed

subsection \<open>Helper facts on the range of doubles\<close>

lemma float_overflow_bounds: "2 ^ 1023 < float_overflow" "float_overflow < 2 ^ 1024"
  by (simp_all add: float_overflow_def)

lemma float_tiny_pos: "0 < float_tiny"
  by (simp add: float_tiny_def)

lemma float_moderate: "float_tiny < 1 / 1000" "1000 < float_overflow"
  by (simp_all add: float_tiny_def float_overflow_def)

lemma float_tiny_less_overflow: "float_tiny < float_overflow"
  using float_moderate by linarith

lemma in_float_range_moderate:
  assumes "1 / 1000 \<le> \<bar>x\<bar>" "\<bar>x\<bar> \<le> 1000"
  shows "in_float_range x"
  using assms float_moderate by (simp add: in_float_range_def)

lemma to_float64_zero: "to_float64 0 = Finite 0"
  using float_tiny_pos float_tiny_less_overflow by (simp add: to_float64_def)

lemma to_float64_in_range: "in_float_range x \<Longrightarrow> to_float64 x = Finite x"
  by (auto simp: in_float_range_def to_float64_def)

lemma py_float_pow_in_range: "in_float_range (x ^ n) \<Longrightarrow> py_float_pow x n = Inr (x ^ n)"
  by (auto simp: in_float_range_def py_float_pow_def)

lemma py_float_pow_underflow: "\<bar>x ^ n\<bar> \<le> float_tiny \<Longrightarrow> py_float_pow x n = Inr 0"
  using float_tiny_less_overflow by (simp add: py_float_pow_def)

lemma calculate_overlap_f64_value:
  assumes "1 / 10 \<le> a" "sin (a * pi / 180) \<noteq> 0"
    "in_float_range (t\<^sup>2)" "in_float_range (t\<^sup>2 * h)"
    "in_float_range (t\<^sup>2 * h / sin (a * pi / 180))"
  shows "calculate_overlap_f64 a t h = Inr (Finite (t\<^sup>2 * h / sin (a * pi / 180)))"
  using assms
  by (simp add: calculate_overlap_f64_def py_float_pow_in_range py_float_mul_def
      to_float64_in_range np_sin_def np_radians_def)

text \<open>The two readings agree below the floor, and above it where everything is in range.\<close>

lemma calculate_overlap_f64_exact:
  assumes "a < 1 / 10 \<or>
    (sin (a * pi / 180) \<noteq> 0 \<and> in_float_range (t\<^sup>2) \<and> in_float_range (t\<^sup>2 * h) \<and>
     in_float_range (t\<^sup>2 * h / sin (a * pi / 180)))"
  shows "calculate_overlap_f64 a t h = calculate_overlap a t h"
proof (cases "a < 1 / 10")
  case True
  then show ?thesis by (simp add: calculate_overlap_f64_def calculate_overlap_def)
next
  case False
  with assms have r: "1 / 10 \<le> a" "sin (a * pi / 180) \<noteq> 0"
    "in_float_range (t\<^sup>2)" "in_float_range (t\<^sup>2 * h)"
    "in_float_range (t\<^sup>2 * h / sin (a * pi / 180))"
    by simp_all
  from r(1,2) have "calculate_overlap a t h = Inr (Finite (t\<^sup>2 * h / sin (a * pi / 180)))"
    by (simp add: calculate_overlap_def np_true_divide_def np_sin_def np_radians_def)
  with calculate_overlap_f64_value [OF r] show ?thesis by simp
qed

text \<open>
  On the grid of the script the sine is at least \<open>1/64\<close> (halving 32 degrees five times),
  so with the default thickness and height every quotient is in range.
\<close>

lemma sin_half_angle_bound:
  fixes x :: real
  assumes "0 \<le> sin x"
  shows "sin (2 * x) / 2 \<le> sin x"
proof -
  have "sin x * cos x \<le> sin x * 1"
    by (rule mult_left_mono) (simp_all add: assms)
  then show ?thesis by (simp add: sin_double)
qed

lemma sin_one_degree: "1 / 64 \<le> sin (pi / 180)"
proof -
  have pos: "0 \<le> sin (k * pi / 180)" if "0 \<le> k" "k \<le> 180" for k :: real
  proof -
    have "0 \<le> k * pi / 180" using that by simp
    moreover have "k * pi / 180 \<le> pi" using that by simp
    ultimately show ?thesis by (rule sin_ge_zero)
  qed
  have "sin (pi / 6) \<le> sin (32 * pi / 180)"
    by (intro sin_monotone_2pi_le) simp_all
  then have s32: "1 / 2 \<le> sin (32 * pi / 180)" by (simp add: sin_30)
  have "sin (32 * pi / 180) / 2 \<le> sin (16 * pi / 180)"
    using sin_half_angle_bound [OF pos [of 16]] by simp
  moreover have "sin (16 * pi / 180) / 2 \<le> sin (8 * pi / 180)"
    using sin_half_angle_bound [OF pos [of 8]] by simp
  moreover have "sin (8 * pi / 180) / 2 \<le> sin (4 * pi / 180)"
    using sin_half_angle_bound [OF pos [of 4]] by simp
  moreover have "sin (4 * pi / 180) / 2 \<le> sin (2 * pi / 180)"
    using sin_half_angle_bound [OF pos [of 2]] by simp
  moreover have "sin (2 * pi / 180) / 2 \<le> sin (1 * pi / 180)"
    using sin_half_angle_bound [OF pos [of 1]] by simp
  ultimately show ?thesis using s32 by simp
qed

lemma sin_degrees_lower:
  assumes "1 \<le> a" "a \<le> 90"
  shows "1 / 64 \<le> sin (a * pi / 180)"
proof -
  have "sin (pi / 180) \<le> sin (a * pi / 180)"
    using assms by (intro sin_monotone_2pi_le) simp_all
  with sin_one_degree show ?thesis by simp
qed

lemma calculate_overlap_f64_default:
  assumes "1 \<le> a" "a \<le> 90"
  shows "calculate_overlap_f64 a default_thickness default_height
           = calculate_overlap a default_thickness default_height"
proof -
  let ?s = "sin (a * pi / 180)"
  have lo: "1 / 64 \<le> ?s" using assms by (rule sin_degrees_lower)
  have hi: "?s \<le> 1" by simp
  have s0: "?s \<noteq> 0" using lo by simp
  have q1: "243 / 1600 \<le> 243 / 1600 / ?s"
    using lo hi by (simp add: field_simps)
  have q2: "243 / 1600 / ?s \<le> 243 / 1600 / (1 / 64)"
    using lo by (intro divide_left_mono) simp_all
  have r1: "in_float_range ((225 / 1000)\<^sup>2)"
    by (intro in_float_range_moderate) (simp_all add: power2_eq_square)
  have r2: "in_float_range ((225 / 1000)\<^sup>2 * 3)"
    by (intro in_float_range_moderate) (simp_all add: power2_eq_square)
  have r3: "in_float_range ((225 / 1000)\<^sup>2 * 3 / ?s)"
  proof (intro in_float_range_moderate)
    have "0 < 243 / 1600 / ?s" using lo by simp
    then have "\<bar>(225 / 1000)\<^sup>2 * 3 / ?s\<bar> = 243 / 1600 / ?s"
      by (simp add: power2_eq_square)
    with q1 q2 show "1 / 1000 \<le> \<bar>(225 / 1000)\<^sup>2 * 3 / ?s\<bar>"
      and "\<bar>(225 / 1000)\<^sup>2 * 3 / ?s\<bar> \<le> 1000"
      by simp_all
  qed
  from s0 r1 r2 r3 show ?thesis
    by (simp add: calculate_overlap_f64_exact default_thickness_def default_height_def)
qed

lemma calculate_overlap_f64_angles:
  "a \<in> set angles \<Longrightarrow>
   calculate_overlap_f64 a default_thickness default_height
     = calculate_overlap a default_thickness default_height"
  using angles_bounds by (simp add: calculate_overlap_f64_default)

subsection \<open>\<open>calculate_overlap\<close> at and above the floor\<close>

text \<open>
  C1, as stated, fails in three ways.  At 270 degrees the guard lets the angle through,
  the sine is \<open>-1\<close>, and the call returns the negative volume \<open>-0.151875\<close>.  At 30 degrees
  with the positive thickness \<open>2 ^ -600\<close> the square underflows and the call returns zero,
  which is not strictly positive.  At 30 degrees with the thickness \<open>3 * 2 ^ 510\<close> the
  square is a double, its product with the height 3 is not, and the call returns
  \<open>float('inf')\<close>, which is not finite.
\<close>

theorem calculate_overlap_f64_not_finite_positive:
  "(1 / 10 :: real) \<le> 270 \<and>
   calculate_overlap_f64 270 (225 / 1000) 3 = Inr (Finite (- (151875 / 1000000))) \<and>
   \<not> (0::real) < - (151875 / 1000000) \<and>
   (1 / 10 :: real) \<le> 30 \<and> (0::real) < 1 / 2 ^ 600 \<and> (0::real) < 3 * 2 ^ 510 \<and>
   calculate_overlap_f64 30 (1 / 2 ^ 600) 3 = Inr (Finite 0) \<and>
   calculate_overlap_f64 30 (3 * 2 ^ 510) 3 = Inr PInf"
proof -
  have s270: "sin (270 * pi / 180) = - 1"
    using np_sin_radians_270 by (simp add: np_sin_def np_radians_def)
  have "calculate_overlap_f64 270 (225 / 1000) 3
          = Inr (Finite ((225 / 1000)\<^sup>2 * 3 / sin (270 * pi / 180)))"
    unfolding s270
    by (intro calculate_overlap_f64_value [of 270, unfolded s270] in_float_range_moderate)
      (simp_all add: power2_eq_square)
  then have a: "calculate_overlap_f64 270 (225 / 1000) 3 = Inr (Finite (- (151875 / 1000000)))"
    unfolding s270 by (simp add: power2_eq_square)
  have "\<bar>(1 / 2 ^ 600 :: real) ^ 2\<bar> \<le> float_tiny"
    by (simp add: float_tiny_def power2_eq_square)
  then have "py_float_pow (1 / 2 ^ 600) 2 = Inr 0" by (rule py_float_pow_underflow)
  then have b: "calculate_overlap_f64 30 (1 / 2 ^ 600) 3 = Inr (Finite 0)"
    by (simp add: calculate_overlap_f64_def py_float_mul_def to_float64_zero np_sin_def
        np_radians_def sin_30)
  have "in_float_range ((3 * 2 ^ 510 :: real) ^ 2)"
    by (simp add: in_float_range_def float_tiny_def float_overflow_def power2_eq_square)
  then have "py_float_pow (3 * 2 ^ 510) 2 = Inr ((3 * 2 ^ 510) ^ 2)"
    by (rule py_float_pow_in_range)
  moreover have "float_overflow \<le> (3 * 2 ^ 510 :: real) ^ 2 * 3"
    by (simp add: float_overflow_def power2_eq_square)
  ultimately have c: "calculate_overlap_f64 30 (3 * 2 ^ 510) 3 = Inr PInf"
    by (simp add: calculate_overlap_f64_def py_float_mul_def to_float64_def np_sin_def
        np_radians_def sin_30)
  show ?thesis using a b c by simp
qed

text \<open>
  C1 (amended): for every angle of at least 0.1 degrees whose sine is not zero, and every
  thickness and height for which \<open>thickness\<^sup>2\<close>, \<open>thickness\<^sup>2 * height\<close> and the quotient are
  within the range of doubles, \<open>calculate_overlap\<close> returns the finite value
  \<open>thickness\<^sup>2 * height / sin (radians theta_deg)\<close>.  The value is strictly positive
  exactly when the height and the sine have the same sign; in particular it is for a
  positive height and every angle below 180 degrees.
\<close>

theorem calculate_overlap_f64_above_floor:
  "1 / 10 \<le> theta_deg \<Longrightarrow> sin (theta_deg * pi / 180) \<noteq> 0 \<Longrightarrow>
   in_float_range (thickness\<^sup>2) \<Longrightarrow> in_float_range (thickness\<^sup>2 * height) \<Longrightarrow>
   in_float_range (thickness\<^sup>2 * height / sin (theta_deg * pi / 180)) \<Longrightarrow>
   calculate_overlap_f64 theta_deg thickness height
     = Inr (Finite (thickness\<^sup>2 * height / sin (theta_deg * pi / 180))) \<and>
   (0 < thickness\<^sup>2 * height / sin (theta_deg * pi / 180))
     = (0 < height * sin (theta_deg * pi / 180)) \<and>
   (theta_deg < 180 \<and> 0 < height \<longrightarrow>
      0 < thickness\<^sup>2 * height / sin (theta_deg * pi / 180))"
proof -
  assume a: "1 / 10 \<le> theta_deg" "sin (theta_deg * pi / 180) \<noteq> 0"
    "in_float_range (thickness\<^sup>2)" "in_float_range (thickness\<^sup>2 * height)"
    "in_float_range (thickness\<^sup>2 * height / sin (theta_deg * pi / 180))"
  let ?s = "sin (theta_deg * pi / 180)"
  from a(3) have "thickness\<^sup>2 \<noteq> 0"
    by (auto simp: in_float_range_def float_tiny_def)
  then have t: "0 < thickness\<^sup>2" by simp
  have p: "0 < thickness\<^sup>2 / ?s\<^sup>2" using t a(2) by simp
  have e: "thickness\<^sup>2 * height / ?s = thickness\<^sup>2 / ?s\<^sup>2 * (height * ?s)"
    using a(2) by (simp add: power2_eq_square)
  have "(0 < c * b) = (0 < b)" if "0 < c" for c b :: real
    using that by (simp add: zero_less_mult_iff)
  from this [OF p] have sign: "(0 < thickness\<^sup>2 * height / ?s) = (0 < height * ?s)"
    unfolding e .
  have "0 < thickness\<^sup>2 * height / ?s" if "theta_deg < 180" "0 < height"
  proof -
    have "0 < ?s"
      using np_sin_radians_pos [of theta_deg] a(1) that
      by (simp add: np_sin_def np_radians_def)
    with that show ?thesis unfolding sign by simp
  qed
  with sign calculate_overlap_f64_value [OF a] show ?thesis by blast
qed

theorem calculate_overlap_f64_above_floor_witness:
  "(1 / 10 :: real) \<le> 30 \<and> (30::real) < 180 \<and> (0::real) < 3 \<and>
   calculate_overlap_f64 30 (225 / 1000) 3 = Inr (Finite (30375 / 100000)) \<and>
   (0::real) < 30375 / 100000"
proof -
  have s: "sin (30 * pi / 180) = 1 / 2" by (simp add: sin_30)
  have r1: "in_float_range ((225 / 1000)\<^sup>2)"
    by (intro in_float_range_moderate) (simp_all add: power2_eq_square)
  have r2: "in_float_range ((225 / 1000)\<^sup>2 * 3)"
    by (intro in_float_range_moderate) (simp_all add: power2_eq_square)
  have r3: "in_float_range ((225 / 1000)\<^sup>2 * 3 / sin (30 * pi / 180))"
    unfolding s by (intro in_float_range_moderate) (simp_all add: power2_eq_square)
  have n: "sin (30 * pi / 180) \<noteq> 0" unfolding s by simp
  have f: "(1 / 10 :: real) \<le> 30" by simp
  from calculate_overlap_f64_above_floor [OF f n r1 r2 r3] show ?thesis
    by (simp add: power2_eq_square sin_30)
qed

subsection \<open>\<open>calculate_overlap\<close> below the floor\<close>

text \<open>
  C2: for every angle strictly below 0.1 degrees, \<open>calculate_overlap\<close> returns
  \<open>float('inf')\<close>; it returns it as a value, no exception is raised.
\<close>

theorem calculate_overlap_below_floor:
  "theta_deg < 1 / 10 \<Longrightarrow> calculate_overlap theta_deg thickness height = Inr PInf"
  by (simp add: calculate_overlap_def)

theorem calculate_overlap_below_floor_witness:
  "(5 / 100 :: real) < 1 / 10 \<and> calculate_overlap (5 / 100) (225 / 1000) 3 = Inr PInf"
  using calculate_overlap_below_floor [of "5 / 100" "225 / 1000" 3] by simp

subsection \<open>Totality\<close>

text \<open>
  C3, as stated, fails at the thickness \<open>2 ^ 600\<close>: at 45 degrees the power
  \<open>thickness**2\<close> overflows and the call raises \<open>OverflowError\<close>.
\<close>

theorem calculate_overlap_f64_raises:
  "calculate_overlap_f64 45 (2 ^ 600) 3 = Inl OverflowError"
proof -
  have "float_overflow \<le> \<bar>(2 ^ 600 :: real) ^ 2\<bar>"
    by (simp add: float_overflow_def)
  then show ?thesis
    by (simp add: calculate_overlap_f64_def py_float_pow_def)
qed

text \<open>
  C3 (amended): \<open>calculate_overlap\<close> returns a value, and raises nothing, for every real
  angle below the floor whatever the thickness, and for every real angle whenever
  \<open>thickness\<^sup>2\<close> is below the overflow threshold of doubles, as the default 0.225 is.  Its
  one failure condition is an angle of at least 0.1 degrees together with a thickness
  whose square overflows: the call then raises \<open>OverflowError\<close>.
\<close>

theorem calculate_overlap_f64_total:
  "(theta_deg < 1 / 10 \<or> thickness\<^sup>2 < float_overflow \<longrightarrow>
      (\<exists>v. calculate_overlap_f64 theta_deg thickness height = Inr v)) \<and>
   (1 / 10 \<le> theta_deg \<and> float_overflow \<le> thickness\<^sup>2 \<longrightarrow>
      calculate_overlap_f64 theta_deg thickness height = Inl OverflowError)"
  by (simp add: calculate_overlap_f64_def py_float_pow_def Let_def)

theorem calculate_overlap_f64_total_witness:
  "(225 / 1000 :: real)\<^sup>2 < float_overflow \<and>
   (\<exists>v. calculate_overlap_f64 45 (225 / 1000) 3 = Inr v) \<and>
   (5 / 100 :: real) < 1 / 10 \<and>
   (\<exists>v. calculate_overlap_f64 (5 / 100) (2 ^ 600) 3 = Inr v) \<and>
   (1 / 10 :: real) \<le> 90 \<and> float_overflow \<le> (2 ^ 600)\<^sup>2 \<and>
   calculate_overlap_f64 90 (2 ^ 600) 3 = Inl OverflowError"
proof -
  have lo: "(225 / 1000 :: real)\<^sup>2 < float_overflow"
    using float_moderate(2) by (simp add: power2_eq_square)
  have hi: "float_overflow \<le> (2 ^ 600 :: real)\<^sup>2"
    by (simp add: float_overflow_def)
  from calculate_overlap_f64_total [of 45 "225 / 1000" 3] lo
  have 1: "\<exists>v. calculate_overlap_f64 45 (225 / 1000) 3 = Inr v" by simp
  from calculate_overlap_f64_total [of "5 / 100" "2 ^ 600" 3]
  have 2: "\<exists>v. calculate_overlap_f64 (5 / 100) (2 ^ 600) 3 = Inr v" by simp
  from calculate_overlap_f64_total [of 90 "2 ^ 600" 3] hi
  have 3: "calculate_overlap_f64 90 (2 ^ 600) 3 = Inl OverflowError" by simp
  from lo hi 1 2 3 show ?thesis by simp
qed

subsection \<open>Monotonicity\<close>



subsection \<open>The right angle\<close>


subsection \<open>The sweep keeps length and order\<close>

text \<open>
  C6: for every domain the sweep returns one sample per domain point, in the order of the
  domain: the output is as long as the input, the \<open>i\<close>-th sample carries the \<open>i\<close>-th angle,
  and its volume is what \<open>calculate_overlap\<close> returns there.
\<close>

theorem sweep_length_order:
  "\<exists>ss. sweep domain = Inr ss \<and> length ss = length domain \<and>
     (\<forall>i<length domain. angle (ss ! i) = domain ! i \<and>
        calculate_overlap (domain ! i) default_thickness default_height = Inr (volume (ss ! i)))"
  by (simp add: sweep_eq calculate_overlap_Inr)

theorem sweep_length_order_witness:
  "\<exists>ss. sweep [30, 90] = Inr ss \<and> length ss = 2 \<and> angle (ss ! 0) = 30 \<and> angle (ss ! 1) = 90"
proof -
  from sweep_length_order [of "[30, 90]"] obtain ss where
    s: "sweep [30, 90] = Inr ss" and l: "length ss = length [30, 90 :: real]" and
    n: "\<forall>i<length [30, 90 :: real]. angle (ss ! i) = [30, 90] ! i \<and>
        calculate_overlap ([30, 90] ! i) default_thickness default_height = Inr (volume (ss ! i))"
    by blast
  from n have "angle (ss ! 0) = 30" by simp
  moreover from n have "angle (ss ! 1) = 90" by simp
  ultimately show ?thesis using s l by simp
qed

subsection \<open>The samples of the program's sweep\<close>

text \<open>
  C8: every sample of the program's own sweep (over \<open>angles\<close>) has its angle in \<open>[1, 90]\<close>
  and a volume that is not NaN and is either \<open>float('inf')\<close> or a finite non-negative
  number.
\<close>

theorem sweep_angles_invariant:
  "\<exists>ss. sweep angles = Inr ss \<and>
     (\<forall>s\<in>set ss. 1 \<le> angle s \<and> angle s \<le> 90 \<and> volume s \<noteq> NaN \<and>
        (volume s = PInf \<or> (\<exists>v. volume s = Finite v \<and> 0 \<le> v)))"
proof -
  let ?f = "\<lambda>a. \<lparr>angle = a,
      volume = projr (calculate_overlap a default_thickness default_height)\<rparr>"
  have "1 \<le> angle s \<and> angle s \<le> 90 \<and> volume s \<noteq> NaN \<and>
        (volume s = PInf \<or> (\<exists>v. volume s = Finite v \<and> 0 \<le> v))"
    if "s \<in> set (map ?f angles)" for s
  proof -
    from that obtain a where a: "a \<in> set angles" and s: "s = ?f a" by auto
    from a have b: "1 \<le> a" "a \<le> 90" using angles_bounds by simp_all
    from default_overlap_finite [OF b] s b show ?thesis
      by (simp add: less_imp_le del: zero_le_divide_iff zero_less_divide_iff)
  qed
  then show ?thesis by (simp add: sweep_eq del: set_map)
qed

theorem sweep_angles_invariant_witness:
  "\<exists>ss. sweep angles = Inr ss \<and>
     \<lparr>angle = 90, volume = Finite (151875 / 1000000)\<rparr> \<in> set ss \<and>
     1 \<le> angle \<lparr>angle = 90, volume = Finite (151875 / 1000000)\<rparr> \<and>
     angle \<lparr>angle = 90, volume = Finite (151875 / 1000000)\<rparr> \<le> 90 \<and>
     volume \<lparr>angle = 90, volume = Finite (151875 / 1000000)\<rparr> \<noteq> NaN"
proof -
  let ?s = "\<lparr>angle = 90, volume = Finite (151875 / 1000000)\<rparr>"
  from sweep_angles_invariant obtain ss where s: "sweep angles = Inr ss" and
    b: "\<forall>s\<in>set ss. 1 \<le> angle s \<and> angle s \<le> 90 \<and> volume s \<noteq> NaN \<and>
        (volume s = PInf \<or> (\<exists>v. volume s = Finite v \<and> 0 \<le> v))"
    by blast
  have "90 \<in> set angles" by (simp add: angles_eq)
  then have "?s \<in> set ss"
    using s by (force simp: sweep_eq default_overlap_90)
  with b s show ?thesis by blast
qed

subsection \<open>The published configuration\<close>

text \<open>
  C9: the program runs with a grid of 500 points from 1 to 90 degrees, evenly spaced
  (consecutive points differ by \<open>89/499\<close>), the thickness 0.225 and the height 3.0, which
  every call of the sweep uses, and the floor 0.1: below it the volume is infinite, at it
  the volume is not.
\<close>

theorem published_configuration:
  "length angles = 500 \<and> angles ! 0 = 1 \<and> angles ! 499 = 90 \<and>
   (\<forall>i<499. angles ! Suc i - angles ! i = 89 / 499) \<and>
   default_thickness = 225 / 1000 \<and> default_height = 3 \<and>
   (\<exists>vs. volumes = Inr vs \<and> length vs = 500 \<and>
      (\<forall>i<500. calculate_overlap (angles ! i) (225 / 1000) 3 = Inr (vs ! i))) \<and>
   (\<forall>a<1 / 10. calculate_overlap a (225 / 1000) 3 = Inr PInf) \<and>
   calculate_overlap (1 / 10) (225 / 1000) 3 \<noteq> Inr PInf"
proof -
  have step: "angles ! Suc i - angles ! i = 89 / 499" if "i < 499" for i
  proof (cases "Suc i < 499")
    case True
    then show ?thesis by (simp add: angles_nth field_simps)
  next
    case False
    with that have "i = 498" by simp
    then show ?thesis by (simp add: angles_nth angles_nth_last)
  qed
  have vols: "\<exists>vs. volumes = Inr vs \<and> length vs = 500 \<and>
      (\<forall>i<500. calculate_overlap (angles ! i) (225 / 1000) 3 = Inr (vs ! i))"
    by (simp add: volumes_def volumes_of_eq length_angles calculate_overlap_Inr
        default_thickness_def default_height_def)
  have floor: "calculate_overlap (1 / 10) (225 / 1000) 3 \<noteq> Inr PInf"
    by (simp add: calculate_overlap_finite)
  have below: "\<forall>a<1 / 10. calculate_overlap a (225 / 1000) 3 = Inr PInf"
    by (simp add: calculate_overlap_def)
  have "length angles = 500" by (rule length_angles)
  moreover have "angles ! 0 = 1" by (simp add: angles_nth)
  moreover have "angles ! 499 = 90" by (rule angles_nth_last)
  moreover have "default_thickness = 225 / 1000" by (simp add: default_thickness_def)
  moreover have "default_height = 3" by (simp add: default_height_def)
  ultimately show ?thesis using step vols floor below by blast
qed

theorem published_configuration_witness:
  "angles ! Suc 0 - angles ! 0 = 89 / 499 \<and>
   calculate_overlap (5 / 100) (225 / 1000) 3 = Inr PInf \<and>
   (\<exists>vs. volumes = Inr vs \<and> calculate_overlap (angles ! 0) (225 / 1000) 3 = Inr (vs ! 0))"
proof -
  from published_configuration have
    a: "\<forall>i<499. angles ! Suc i - angles ! i = 89 / 499" and
    b: "\<forall>a<1 / 10. calculate_overlap a (225 / 1000) 3 = Inr PInf" and
    c: "\<exists>vs. volumes = Inr vs \<and> length vs = 500 \<and>
      (\<forall>i<500. calculate_overlap (angles ! i) (225 / 1000) 3 = Inr (vs ! i))"
    by blast+
  from a have "angles ! Suc 0 - angles ! 0 = 89 / 499" by simp
  moreover from b have "calculate_overlap (5 / 100) (225 / 1000) 3 = Inr PInf" by simp
  moreover from c have
    "\<exists>vs. volumes = Inr vs \<and> calculate_overlap (angles ! 0) (225 / 1000) 3 = Inr (vs ! 0)"
    by auto
  ultimately show ?thesis by blast
qed

subsection \<open>The degenerate branch under the published grid\<close>

text \<open>
  C10: the program's 500 angles are all at least 1 degree, hence above the floor: the
  comprehension returns 500 volumes, and each of them is a finite, strictly positive
  number; \<open>float('inf')\<close> is never among them.
\<close>

theorem volumes_finite_positive:
  "\<exists>vs. volumes = Inr vs \<and> length vs = 500 \<and>
     (\<forall>i<500. 1 \<le> angles ! i \<and> (\<exists>v. vs ! i = Finite v \<and> 0 < v))"
proof -
  let ?g = "\<lambda>a. projr (calculate_overlap a default_thickness default_height)"
  have "1 \<le> angles ! i \<and> (\<exists>v. map ?g angles ! i = Finite v \<and> 0 < v)" if "i < 500" for i
  proof -
    from that have "angles ! i \<in> set angles" by (simp add: length_angles)
    then have b: "1 \<le> angles ! i" "angles ! i \<le> 90" using angles_bounds by simp_all
    from default_overlap_finite [OF b] b that show ?thesis
      by (simp add: length_angles del: zero_less_divide_iff)
  qed
  then show ?thesis by (simp add: volumes_def volumes_of_eq length_angles)
qed

theorem volumes_finite_positive_witness:
  "\<exists>vs. volumes = Inr vs \<and> (1::real) \<le> angles ! 499 \<and> vs ! 499 = Finite (151875 / 1000000) \<and>
     (0::real) < 151875 / 1000000"
proof -
  from volumes_finite_positive obtain vs where v: "volumes = Inr vs" and
    b: "\<forall>i<500. 1 \<le> angles ! i \<and> (\<exists>v. vs ! i = Finite v \<and> 0 < v)"
    by blast
  from b have "1 \<le> angles ! 499" by simp
  moreover have "vs ! 499 = Finite (151875 / 1000000)"
  proof -
    from v have "vs = map (\<lambda>a. projr (calculate_overlap a default_thickness default_height)) angles"
      by (simp add: volumes_def volumes_of_eq)
    then show ?thesis
      by (simp add: length_angles angles_nth_last default_overlap_90)
  qed
  ultimately show ?thesis using v by auto
qed

end
